theory Spec2Isabelle
  imports Main "HOL-Library.Word"
begin

unbundle bit_operations_syntax

section \<open>libavcodec/libmp3lame.c: the adapter between the codec framework and libmp3lame\<close>

text \<open>
  The file has three functions: \<open>MP3lame_encode_close\<close>, \<open>MP3lame_encode_init\<close> and
  \<open>MP3lame_encode_frame\<close>. Each is embedded below under its own name, with the same
  order of checks; \<open>lame_configure\<close>, \<open>init_error\<close> and \<open>encode_call\<close> are named
  parts of them (the configuration calls, the \<open>error:\<close> label, the choice of the
  library entry point). What the file does not contain is kept outside the model on
  purpose:
  \<^item> macros of other headers (\<open>MPA_FRAME_SIZE\<close>, \<open>FF_COMPRESSION_DEFAULT\<close>,
    \<open>CODEC_FLAG_QSCALE\<close>, \<open>FF_QP2LAMBDA\<close>) are parameters, gathered in the record
    \<open>macros\<close>, so every theorem holds for any value they may have;
    \<open>AVERROR(EINVAL)\<close> and \<open>AVERROR(ENOMEM)\<close> stay symbolic;
  \<^item> libmp3lame is an external library: during initialisation every call to it is
    recorded in a trace and its answers are an input of the model; the encode and flush
    entry points are a function from the call to the library's answer;
  \<^item> the frame-header parser \<open>avpriv_mpegaudio_decode_header\<close> is a parameter.
  Integers are unbounded: under the invariant of the holding buffer every value of
  \<open>buffer_index\<close> stays below \<open>BUFFER_SIZE\<close>, far from the range of \<open>int\<close>.
\<close>

subsection \<open>Data\<close>

type_synonym u8 = "8 word"
type_synonym u32 = "32 word"

text \<open>Pointers: \<open>None\<close> is \<open>NULL\<close>, \<open>Some a\<close> the object at address \<open>a\<close>.\<close>

type_synonym lame_global_flags_ptr = "nat option"
type_synonym AVFrame_ptr = "nat option"

record macros =
  MPA_FRAME_SIZE :: nat
  FF_COMPRESSION_DEFAULT :: int
  CODEC_FLAG_QSCALE :: int
  FF_QP2LAMBDA :: int

text \<open>\<open>#define BUFFER_SIZE (7200 + 2 * MPA_FRAME_SIZE + MPA_FRAME_SIZE / 4)\<close>\<close>

definition BUFFER_SIZE :: "macros \<Rightarrow> int" where
  "BUFFER_SIZE m = 7200 + 2 * int (MPA_FRAME_SIZE m) + int (MPA_FRAME_SIZE m) div 4"

text \<open>
  \<open>struct Mp3AudioContext\<close>. The \<open>AVClass\<close> pointer is used by the option system only
  and is left out. \<open>buffer\<close> is the array \<open>uint8_t buffer[BUFFER_SIZE]\<close>,
  \<open>buffer_index\<close> the number of bytes of it that are in use.
\<close>

record Mp3AudioContext =
  gfp :: lame_global_flags_ptr
  buffer :: "u8 list"
  buffer_index :: int
  reservoir :: int

text \<open>The fields of \<open>AVCodecContext\<close> that the file reads or writes.\<close>

record AVCodecContext =
  channels :: int
  sample_rate :: int
  bit_rate :: int
  compression_level :: int
  flags :: int
  global_quality :: int
  frame_size :: int
  coded_frame :: AVFrame_ptr
  priv_data :: Mp3AudioContext

datatype MPEG_mode = JOINT_STEREO | MONO

datatype vbr_mode = vbr_default

text \<open>
  The calls that leave the file during initialisation and shutdown, in the order they
  are made. Each constructor is the function of the same name with its arguments; for a
  call whose result the file uses (\<open>lame_init\<close>, \<open>lame_init_params\<close>,
  \<open>lame_get_framesize\<close>, \<open>avcodec_alloc_frame\<close>) the last argument is that result.
  \<open>lame_set_VBR_quality\<close> receives the float quotient
  \<open>global_quality / (float)FF_QP2LAMBDA\<close>; the event keeps numerator and denominator
  and does not compute the quotient.
\<close>

datatype ext_call =
    Lame_init lame_global_flags_ptr
  | Lame_set_in_samplerate lame_global_flags_ptr int
  | Lame_set_out_samplerate lame_global_flags_ptr int
  | Lame_set_num_channels lame_global_flags_ptr int
  | Lame_set_quality lame_global_flags_ptr int
  | Lame_set_mode lame_global_flags_ptr MPEG_mode
  | Lame_set_brate lame_global_flags_ptr int
  | Lame_set_VBR lame_global_flags_ptr vbr_mode
  | Lame_set_VBR_quality lame_global_flags_ptr int int
  | Lame_set_bWriteVbrTag lame_global_flags_ptr int
  | Lame_set_disable_reservoir lame_global_flags_ptr int
  | Lame_init_params lame_global_flags_ptr int
  | Lame_get_framesize lame_global_flags_ptr int
  | Avcodec_alloc_frame AVFrame_ptr
  | Av_freep AVFrame_ptr
  | Lame_close lame_global_flags_ptr

text \<open>What the outside world answers during one run of \<open>MP3lame_encode_init\<close>.\<close>

record init_extern =
  ext_lame_init :: lame_global_flags_ptr
  ext_lame_init_params :: int
  ext_lame_get_framesize :: int
  ext_avcodec_alloc_frame :: AVFrame_ptr

text \<open>
  Return values of init and close. \<open>AVERROR(EINVAL)\<close> and \<open>AVERROR(ENOMEM)\<close> are
  macros of libavutil and errno.h; they are kept as written.
\<close>

datatype errno = EINVAL | ENOMEM

datatype retval = Ret int | AVERROR errno

record init_result =
  ir_ret :: retval
  ir_ctx :: AVCodecContext
  ir_trace :: "ext_call list"

text \<open>C's integer division truncates towards zero.\<close>

definition c_div :: "int \<Rightarrow> int \<Rightarrow> int" where
  "c_div a b = (if (a < 0) = (b < 0) then \<bar>a\<bar> div \<bar>b\<bar> else - (\<bar>a\<bar> div \<bar>b\<bar>))"

subsection \<open>MP3lame_encode_close (lines 45-53)\<close>

text \<open>
  \<open>av_freep(&avctx->coded_frame)\<close> frees the frame and sets the field to \<open>NULL\<close>;
  \<open>lame_close(s->gfp)\<close> releases the encoder handle. The function returns 0.
\<close>

definition MP3lame_encode_close :: "AVCodecContext \<Rightarrow> init_result" where
  "MP3lame_encode_close avctx =
     (let s = priv_data avctx in
      \<lparr>ir_ret = Ret 0,
       ir_ctx = avctx\<lparr>coded_frame := None\<rparr>,
       ir_trace = [Av_freep (coded_frame avctx), Lame_close (gfp s)]\<rparr>)"

subsection \<open>MP3lame_encode_init (lines 55-98)\<close>

text \<open>Lines 65-81: the configuration calls made on the new handle \<open>g\<close>.\<close>

definition lame_configure :: "macros \<Rightarrow> AVCodecContext \<Rightarrow> lame_global_flags_ptr \<Rightarrow> ext_call list" where
  "lame_configure m avctx g =
     [Lame_set_in_samplerate g (sample_rate avctx),
      Lame_set_out_samplerate g (sample_rate avctx),
      Lame_set_num_channels g (channels avctx),
      Lame_set_quality g
        (if compression_level avctx = FF_COMPRESSION_DEFAULT m then 5
         else compression_level avctx),
      Lame_set_mode g (if channels avctx > 1 then JOINT_STEREO else MONO),
      Lame_set_brate g (c_div (bit_rate avctx) 1000)]
     @ (if (flags avctx AND CODEC_FLAG_QSCALE m) \<noteq> 0
        then [Lame_set_brate g 0,
              Lame_set_VBR g vbr_default,
              Lame_set_VBR_quality g (global_quality avctx) (FF_QP2LAMBDA m)]
        else [])
     @ [Lame_set_bWriteVbrTag g 0,
        Lame_set_disable_reservoir g (if reservoir (priv_data avctx) = 0 then 1 else 0)]"

text \<open>
  The \<open>error:\<close> label calls \<open>MP3lame_encode_close\<close> and returns \<open>ret\<close>; it is the
  function \<open>init_error\<close>.
\<close>

definition init_error :: "retval \<Rightarrow> AVCodecContext \<Rightarrow> ext_call list \<Rightarrow> init_result" where
  "init_error ret avctx tr =
     (let c = MP3lame_encode_close avctx in
      \<lparr>ir_ret = ret, ir_ctx = ir_ctx c, ir_trace = tr @ ir_trace c\<rparr>)"

definition MP3lame_encode_init :: "macros \<Rightarrow> init_extern \<Rightarrow> AVCodecContext \<Rightarrow> init_result" where
  "MP3lame_encode_init m ext avctx0 =
     (if channels avctx0 > 2
      then \<lparr>ir_ret = AVERROR EINVAL, ir_ctx = avctx0, ir_trace = []\<rparr>
      else
        let g = ext_lame_init ext;
            avctx = avctx0\<lparr>priv_data := (priv_data avctx0)\<lparr>gfp := g\<rparr>\<rparr>;
            tr = [Lame_init g]
        in if g = None
           then \<lparr>ir_ret = AVERROR ENOMEM, ir_ctx = avctx, ir_trace = tr\<rparr>
           else
             let tr = tr @ lame_configure m avctx g
                         @ [Lame_init_params g (ext_lame_init_params ext)]
             in if ext_lame_init_params ext < 0
                then init_error (Ret (- 1)) avctx tr
                else
                  let tr = tr @ [Lame_get_framesize g (ext_lame_get_framesize ext),
                                 Avcodec_alloc_frame (ext_avcodec_alloc_frame ext)];
                      avctx = avctx\<lparr>frame_size := ext_lame_get_framesize ext,
                                     coded_frame := ext_avcodec_alloc_frame ext\<rparr>
                  in if coded_frame avctx = None
                     then init_error (AVERROR ENOMEM) avctx tr
                     else \<lparr>ir_ret = Ret 0, ir_ctx = avctx, ir_trace = tr\<rparr>)"

subsection \<open>MP3lame_encode_frame (lines 104-158)\<close>

text \<open>
  The three entry points of libmp3lame the function may call. The arguments are those of
  the C call: the handle, the sample buffer(s), the number of samples
  (\<open>avctx->frame_size\<close>; flush has none), and the output area, given as the offset
  \<open>s->buffer_index\<close> into \<open>s->buffer\<close> and the size \<open>BUFFER_SIZE - s->buffer_index\<close>.
\<close>

type_synonym samples = "16 word list"

datatype lame_call =
    Lame_encode_buffer_interleaved lame_global_flags_ptr samples int int int
  | Lame_encode_buffer lame_global_flags_ptr samples samples int int int
  | Lame_encode_flush lame_global_flags_ptr int int

text \<open>
  What libmp3lame answers to such a call: its return value, and the bytes it stored
  through the output pointer. The library is handed the pointer whatever it returns, so
  the stored bytes are part of the answer also when the return value is negative.
\<close>

type_synonym lame_reply = "int \<times> u8 list"

text \<open>
  Modelled from the spec: the frame-header parser \<open>avpriv_mpegaudio_decode_header\<close> and
  its result type \<open>MPADecodeHeader\<close> are declared in mpegaudiodecheader.h, which is not
  part of this file. The spec describes the collaborator as: given a 32-bit big-endian
  header word, it returns parsed frame metadata (at minimum the total frame size in
  bytes) or a rejection. The parser is a parameter of the model; it returns the C return
  value (non-zero is the rejection) and the header, whose \<open>frame_size\<close> is a byte count.
\<close>

record MPADecodeHeader =
  hdr_frame_size :: nat

type_synonym header_parser = "u32 \<Rightarrow> int \<times> MPADecodeHeader"

text \<open>
  Modelled from the spec: \<open>AV_RB32\<close> is a macro of libavutil/intreadwrite.h, not part of
  this file. The spec: "reads a 32-bit big-endian frame header from the front of the
  holding buffer".
\<close>

definition AV_RB32 :: "u8 list \<Rightarrow> u32" where
  "AV_RB32 p = push_bit 24 (ucast (p ! 0)) OR push_bit 16 (ucast (p ! 1))
               OR push_bit 8 (ucast (p ! 2)) OR ucast (p ! 3)"

text \<open>The messages of the two \<open>av_log(avctx, AV_LOG_ERROR, ...)\<close> calls, with their arguments.\<close>

datatype log_msg =
    Output_buffer_too_small int int
  | Free_format_not_supported

text \<open>
  The result of one call: the C return value, the bytes that \<open>memcpy\<close> stored at the
  front of the caller's \<open>frame\<close> (\<open>None\<close> when the call did not reach \<open>memcpy\<close>), the
  messages logged, and the context afterwards.
\<close>

record encode_result =
  er_ret :: int
  er_frame :: "u8 list option"
  er_log :: "log_msg list"
  er_ctx :: AVCodecContext

text \<open>
  The library storing \<open>bytes\<close> at \<open>buf + off\<close>. The array has a fixed size in C; bytes
  stored past its end are outside the language, and here they would lengthen the list.
\<close>

definition lame_store :: "u8 list \<Rightarrow> int \<Rightarrow> u8 list \<Rightarrow> u8 list" where
  "lame_store buf off bytes =
     take (nat off) buf @ bytes @ drop (nat off + length bytes) buf"

text \<open>\<open>memmove(buf, buf + off, n)\<close>: the \<open>n\<close> bytes from offset \<open>off\<close> move to the front.\<close>

definition memmove_front :: "u8 list \<Rightarrow> nat \<Rightarrow> nat \<Rightarrow> u8 list" where
  "memmove_front buf off n = take n (drop off buf) @ drop n buf"

text \<open>Lines 112-127: which entry point is called, and with which arguments.\<close>

definition encode_call :: "macros \<Rightarrow> AVCodecContext \<Rightarrow> samples option \<Rightarrow> lame_call" where
  "encode_call m avctx data =
     (let s = priv_data avctx in
      case data of
        Some d \<Rightarrow>
          if channels avctx > 1
          then Lame_encode_buffer_interleaved (gfp s) d (frame_size avctx)
                 (buffer_index s) (BUFFER_SIZE m - buffer_index s)
          else Lame_encode_buffer (gfp s) d d (frame_size avctx)
                 (buffer_index s) (BUFFER_SIZE m - buffer_index s)
      | None \<Rightarrow>
          Lame_encode_flush (gfp s) (buffer_index s) (BUFFER_SIZE m - buffer_index s))"

text \<open>
  The function itself. \<open>buf_size\<close> is the declared size of the caller's \<open>frame\<close>;
  \<open>data\<close> is \<open>None\<close> for the \<open>NULL\<close> pointer that asks for a flush. \<open>av_dlog\<close> (line 148)
  expands to nothing unless the file is built for debugging and is left out.
\<close>

definition MP3lame_encode_frame ::
  "macros \<Rightarrow> (lame_call \<Rightarrow> lame_reply) \<Rightarrow> header_parser \<Rightarrow>
   AVCodecContext \<Rightarrow> int \<Rightarrow> samples option \<Rightarrow> encode_result" where
  "MP3lame_encode_frame m lame decode_header avctx buf_size data =
     (let s0 = priv_data avctx;
          (lame_result, written) = lame (encode_call m avctx data);
          s1 = s0\<lparr>buffer := lame_store (buffer s0) (buffer_index s0) written\<rparr>
      in if lame_result < 0
         then \<lparr>er_ret = - 1, er_frame = None,
               er_log = (if lame_result = - 1
                         then [Output_buffer_too_small (buffer_index s1)
                                 (BUFFER_SIZE m - buffer_index s1)]
                         else []),
               er_ctx = avctx\<lparr>priv_data := s1\<rparr>\<rparr>
         else
           let s2 = s1\<lparr>buffer_index := buffer_index s1 + lame_result\<rparr>
           in if buffer_index s2 < 4
              then \<lparr>er_ret = 0, er_frame = None, er_log = [],
                    er_ctx = avctx\<lparr>priv_data := s2\<rparr>\<rparr>
              else
                let (rc, hdr) = decode_header (AV_RB32 (buffer s2))
                in if rc \<noteq> 0
                   then \<lparr>er_ret = - 1, er_frame = None,
                         er_log = [Free_format_not_supported],
                         er_ctx = avctx\<lparr>priv_data := s2\<rparr>\<rparr>
                   else
                     let len = int (hdr_frame_size hdr)
                     in if len \<le> buffer_index s2
                        then
                          let out = take (nat len) (buffer s2);
                              s3 = s2\<lparr>buffer_index := buffer_index s2 - len\<rparr>;
                              s4 = s3\<lparr>buffer := memmove_front (buffer s3) (nat len)
                                                   (nat (buffer_index s3))\<rparr>
                          in \<lparr>er_ret = len, er_frame = Some out, er_log = [],
                              er_ctx = avctx\<lparr>priv_data := s4\<rparr>\<rparr>
                        else \<lparr>er_ret = 0, er_frame = None, er_log = [],
                              er_ctx = avctx\<lparr>priv_data := s2\<rparr>\<rparr>)"

subsection \<open>Notions the properties are stated with\<close>

text \<open>The invariant of the holding buffer: \<open>0 \<le> buffer_index \<le> BUFFER_SIZE\<close>.\<close>

definition holding_invariant :: "macros \<Rightarrow> Mp3AudioContext \<Rightarrow> bool" where
  "holding_invariant m s = (0 \<le> buffer_index s \<and> buffer_index s \<le> BUFFER_SIZE m)"

text \<open>The bytes that are buffered: the first \<open>buffer_index\<close> bytes of the array.\<close>

definition holding_contents :: "Mp3AudioContext \<Rightarrow> u8 list" where
  "holding_contents s = take (nat (buffer_index s)) (buffer s)"

text \<open>
  The contract of the library for the encode and flush calls: it stores no more bytes
  than the size it was given, and a non-negative return value is the number of bytes it
  stored.
\<close>

definition lame_contract :: "macros \<Rightarrow> Mp3AudioContext \<Rightarrow> lame_reply \<Rightarrow> bool" where
  "lame_contract m s r =
     (int (length (snd r)) \<le> BUFFER_SIZE m - buffer_index s \<and>
      (0 \<le> fst r \<longrightarrow> fst r = int (length (snd r))))"

text \<open>
  The same contract stated over the call itself: the size the library is bound by is
  the size argument of the call it receives (the last argument of each entry point),
  whatever the state of the caller.
\<close>

fun call_size :: "lame_call \<Rightarrow> int" where
  "call_size (Lame_encode_buffer_interleaved g d n off sz) = sz"
| "call_size (Lame_encode_buffer g l r n off sz) = sz"
| "call_size (Lame_encode_flush g off sz) = sz"

definition lame_call_contract :: "lame_call \<Rightarrow> lame_reply \<Rightarrow> bool" where
  "lame_call_contract c r =
     (int (length (snd r)) \<le> call_size c \<and>
      (0 \<le> fst r \<longrightarrow> fst r = int (length (snd r))))"

text \<open>
  The holding buffer right after the library call has succeeded and line 138 has added
  its result to \<open>buffer_index\<close>: the state in which the header is read and a frame is
  looked for.
\<close>

definition after_append :: "Mp3AudioContext \<Rightarrow> lame_reply \<Rightarrow> Mp3AudioContext" where
  "after_append s r =
     s\<lparr>buffer := lame_store (buffer s) (buffer_index s) (snd r),
       buffer_index := buffer_index s + fst r\<rparr>"

text \<open>
  The handles that are open after a trace of calls: \<open>lame_init\<close> opens the handle it
  returns, \<open>lame_close\<close> releases the one it is given.
\<close>

fun open_handles :: "ext_call list \<Rightarrow> nat list \<Rightarrow> nat list" where
  "open_handles [] hs = hs"
| "open_handles (Lame_init (Some h) # tr) hs = open_handles tr (h # hs)"
| "open_handles (Lame_close (Some h) # tr) hs = open_handles tr (removeAll h hs)"
| "open_handles (_ # tr) hs = open_handles tr hs"

text \<open>The bit rates and the VBR modes handed to the library, in the order of the calls.\<close>

fun brate_calls :: "ext_call list \<Rightarrow> int list" where
  "brate_calls [] = []"
| "brate_calls (Lame_set_brate g b # tr) = b # brate_calls tr"
| "brate_calls (_ # tr) = brate_calls tr"

fun VBR_calls :: "ext_call list \<Rightarrow> vbr_mode list" where
  "VBR_calls [] = []"
| "VBR_calls (Lame_set_VBR g v # tr) = v # VBR_calls tr"
| "VBR_calls (_ # tr) = VBR_calls tr"

text \<open>The same, restricted to the calls made on the handle \<open>h\<close>.\<close>

fun brate_calls_on :: "lame_global_flags_ptr \<Rightarrow> ext_call list \<Rightarrow> int list" where
  "brate_calls_on h [] = []"
| "brate_calls_on h (Lame_set_brate g b # tr) =
     (if g = h then b # brate_calls_on h tr else brate_calls_on h tr)"
| "brate_calls_on h (_ # tr) = brate_calls_on h tr"

fun VBR_calls_on :: "lame_global_flags_ptr \<Rightarrow> ext_call list \<Rightarrow> vbr_mode list" where
  "VBR_calls_on h [] = []"
| "VBR_calls_on h (Lame_set_VBR g v # tr) =
     (if g = h then v # VBR_calls_on h tr else VBR_calls_on h tr)"
| "VBR_calls_on h (_ # tr) = VBR_calls_on h tr"

text \<open>The calls made before the parameters are finalised by \<open>lame_init_params\<close>.\<close>

fun before_init_params :: "ext_call list \<Rightarrow> ext_call list" where
  "before_init_params [] = []"
| "before_init_params (Lame_init_params g r # tr) = []"
| "before_init_params (c # tr) = c # before_init_params tr"

subsection \<open>A concrete session, for the examples\<close>

text \<open>
  Values for the macros, a stereo context at 44100 Hz and 128 kbit/s with an empty
  holding buffer and variants of it, a library that answers a stereo call with eight
  bytes, a mono call with four and a flush with none, and a parser that accepts a word
  starting with the eleven sync bits and then declares a frame of six bytes.
\<close>

definition demo_macros :: macros where
  "demo_macros = \<lparr>MPA_FRAME_SIZE = 1152, FF_COMPRESSION_DEFAULT = - 1,
                   CODEC_FLAG_QSCALE = 2, FF_QP2LAMBDA = 118\<rparr>"

definition zeros :: "nat \<Rightarrow> u8 list" where
  "zeros n = replicate n 0"

definition demo_priv :: Mp3AudioContext where
  "demo_priv = \<lparr>gfp = Some 7, buffer = zeros 9792, buffer_index = 0, reservoir = 1\<rparr>"

definition demo_ctx :: AVCodecContext where
  "demo_ctx = \<lparr>channels = 2, sample_rate = 44100, bit_rate = 128000,
                compression_level = - 1, flags = 0, global_quality = 0,
                frame_size = 1152, coded_frame = Some 1, priv_data = demo_priv\<rparr>"

definition demo_mono_ctx :: AVCodecContext where
  "demo_mono_ctx = demo_ctx\<lparr>channels := 1\<rparr>"

definition demo_surround_ctx :: AVCodecContext where
  "demo_surround_ctx = demo_ctx\<lparr>channels := 6\<rparr>"

definition demo_qscale_ctx :: AVCodecContext where
  "demo_qscale_ctx = demo_ctx\<lparr>flags := 2, global_quality := 236\<rparr>"

text \<open>The same context with two bytes already buffered.\<close>

definition demo_partial_ctx :: AVCodecContext where
  "demo_partial_ctx =
     demo_ctx\<lparr>priv_data := \<lparr>gfp = Some 7, buffer = [0xFF, 0xFB] @ zeros 9790,
                              buffer_index = 2, reservoir = 1\<rparr>\<rparr>"

definition demo_lame :: "lame_call \<Rightarrow> lame_reply" where
  "demo_lame c =
     (case c of
        Lame_encode_buffer_interleaved g l n off sz \<Rightarrow> (8, [0xFF, 0xFB, 0x90, 0x64, 1, 2, 3, 4])
      | Lame_encode_buffer g l r n off sz \<Rightarrow> (4, [0xFF, 0xFB, 0x90, 0x64])
      | Lame_encode_flush g off sz \<Rightarrow> (0, []))"

text \<open>A library call that fails with the given code after storing the given bytes.\<close>

definition failing_lame :: "int \<Rightarrow> u8 list \<Rightarrow> lame_call \<Rightarrow> lame_reply" where
  "failing_lame code bytes c = (code, bytes)"

definition demo_parser :: header_parser where
  "demo_parser w =
     (if drop_bit 21 w = 0x7FF then (0, \<lparr>hdr_frame_size = 6\<rparr>)
      else (1, \<lparr>hdr_frame_size = 0\<rparr>))"

definition demo_extern :: init_extern where
  "demo_extern = \<lparr>ext_lame_init = Some 7, ext_lame_init_params = 0,
                   ext_lame_get_framesize = 1152, ext_avcodec_alloc_frame = Some 1\<rparr>"


section \<open>Properties\<close>

subsection \<open>The branches of MP3lame_encode_frame\<close>

lemma encode_frame_failed:
  assumes "fst (lame (encode_call m avctx data)) < 0"
  shows "MP3lame_encode_frame m lame dec avctx buf_size data =
         \<lparr>er_ret = - 1, er_frame = None,
          er_log = (if fst (lame (encode_call m avctx data)) = - 1
                    then [Output_buffer_too_small (buffer_index (priv_data avctx))
                            (BUFFER_SIZE m - buffer_index (priv_data avctx))]
                    else []),
          er_ctx = avctx\<lparr>priv_data := (priv_data avctx)
                     \<lparr>buffer := lame_store (buffer (priv_data avctx))
                                  (buffer_index (priv_data avctx))
                                  (snd (lame (encode_call m avctx data)))\<rparr>\<rparr>\<rparr>"
  using assms by (simp add: MP3lame_encode_frame_def Let_def case_prod_beta)

lemma encode_frame_short:
  assumes "0 \<le> fst (lame (encode_call m avctx data))"
    and "buffer_index (priv_data avctx) + fst (lame (encode_call m avctx data)) < 4"
  shows "MP3lame_encode_frame m lame dec avctx buf_size data =
         \<lparr>er_ret = 0, er_frame = None, er_log = [],
          er_ctx = avctx\<lparr>priv_data :=
                     after_append (priv_data avctx) (lame (encode_call m avctx data))\<rparr>\<rparr>"
  using assms by (simp add: MP3lame_encode_frame_def after_append_def Let_def case_prod_beta)

lemma encode_frame_rejected:
  assumes "0 \<le> fst (lame (encode_call m avctx data))"
    and "s = after_append (priv_data avctx) (lame (encode_call m avctx data))"
    and "4 \<le> buffer_index s"
    and "fst (dec (AV_RB32 (buffer s))) \<noteq> 0"
  shows "MP3lame_encode_frame m lame dec avctx buf_size data =
         \<lparr>er_ret = - 1, er_frame = None, er_log = [Free_format_not_supported],
          er_ctx = avctx\<lparr>priv_data := s\<rparr>\<rparr>"
  using assms by (simp add: MP3lame_encode_frame_def after_append_def Let_def case_prod_beta)

lemma encode_frame_wait:
  assumes "0 \<le> fst (lame (encode_call m avctx data))"
    and "s = after_append (priv_data avctx) (lame (encode_call m avctx data))"
    and "4 \<le> buffer_index s"
    and "fst (dec (AV_RB32 (buffer s))) = 0"
    and "buffer_index s < int (hdr_frame_size (snd (dec (AV_RB32 (buffer s)))))"
  shows "MP3lame_encode_frame m lame dec avctx buf_size data =
         \<lparr>er_ret = 0, er_frame = None, er_log = [], er_ctx = avctx\<lparr>priv_data := s\<rparr>\<rparr>"
  using assms by (simp add: MP3lame_encode_frame_def after_append_def Let_def case_prod_beta)

lemma encode_frame_extract:
  assumes "0 \<le> fst (lame (encode_call m avctx data))"
    and "s = after_append (priv_data avctx) (lame (encode_call m avctx data))"
    and "4 \<le> buffer_index s"
    and "fst (dec (AV_RB32 (buffer s))) = 0"
    and "len = int (hdr_frame_size (snd (dec (AV_RB32 (buffer s)))))"
    and "len \<le> buffer_index s"
  shows "MP3lame_encode_frame m lame dec avctx buf_size data =
         \<lparr>er_ret = len, er_frame = Some (take (nat len) (buffer s)), er_log = [],
          er_ctx = avctx\<lparr>priv_data := s
                     \<lparr>buffer_index := buffer_index s - len,
                      buffer := memmove_front (buffer s) (nat len)
                                  (nat (buffer_index s - len))\<rparr>\<rparr>\<rparr>"
  using assms by (simp add: MP3lame_encode_frame_def after_append_def Let_def case_prod_beta)

text \<open>Lines 116-126: every entry point is handed the free size of the holding buffer.\<close>

lemma call_size_encode_call:
  "call_size (encode_call m avctx data) = BUFFER_SIZE m - buffer_index (priv_data avctx)"
  by (simp add: encode_call_def Let_def split: option.splits)

lemma after_append_index:
  "buffer_index (after_append s r) = buffer_index s + fst r"
  by (simp add: after_append_def)


lemma after_append_buffer:
  "buffer (after_append s r) = lame_store (buffer s) (buffer_index s) (snd r)"
  by (simp add: after_append_def)

lemma lame_store_take:
  "nat off \<le> length buf \<Longrightarrow> take (nat off) (lame_store buf off bytes) = take (nat off) buf"
  by (simp add: lame_store_def)

lemma lame_store_length:
  "nat off + length bytes \<le> length buf \<Longrightarrow> length (lame_store buf off bytes) = length buf"
  by (simp add: lame_store_def)

lemma lame_store_Nil: "lame_store buf off [] = buf"
  by (simp add: lame_store_def)

lemma memmove_front_take:
  "off + n \<le> length buf \<Longrightarrow> take n (memmove_front buf off n) = take n (drop off buf)"
  by (simp add: memmove_front_def)

lemma memmove_front_length:
  "off + n \<le> length buf \<Longrightarrow> length (memmove_front buf off n) = length buf"
  by (simp add: memmove_front_def)

text \<open>
  Under the invariant and the contract, a successful library call appends the bytes it
  stored to the buffered bytes, and the array keeps its size.
\<close>

lemma after_append_contents:
  assumes "holding_invariant m s" and "int (length (buffer s)) = BUFFER_SIZE m"
    and "lame_contract m s r" and "0 \<le> fst r"
  shows "holding_contents (after_append s r) = holding_contents s @ snd r"
    and "length (buffer (after_append s r)) = length (buffer s)"
    and "buffer_index (after_append s r) \<le> int (length (buffer (after_append s r)))"
  using assms
  by (auto simp add: holding_contents_def after_append_def lame_store_def
      holding_invariant_def lame_contract_def nat_add_distrib)

subsection \<open>The traces of MP3lame_encode_init\<close>

lemma open_handles_configure [simp]:
  "open_handles (lame_configure m avctx g @ tr) hs = open_handles tr hs"
  by (simp add: lame_configure_def)

lemma brate_calls_configure:
  "brate_calls (lame_configure m avctx g) =
     (if (flags avctx AND CODEC_FLAG_QSCALE m) \<noteq> 0 then [c_div (bit_rate avctx) 1000, 0]
      else [c_div (bit_rate avctx) 1000])"
  by (simp add: lame_configure_def)

lemma VBR_calls_configure:
  "VBR_calls (lame_configure m avctx g) =
     (if (flags avctx AND CODEC_FLAG_QSCALE m) \<noteq> 0 then [vbr_default] else [])"
  by (simp add: lame_configure_def)

lemma before_init_params_configure:
  "before_init_params (lame_configure m avctx g @ Lame_init_params g' x # tr) =
   lame_configure m avctx g"
  by (simp add: lame_configure_def)

lemma brate_calls_on_configure:
  "brate_calls_on g (lame_configure m avctx g) =
     (if (flags avctx AND CODEC_FLAG_QSCALE m) \<noteq> 0 then [c_div (bit_rate avctx) 1000, 0]
      else [c_div (bit_rate avctx) 1000])"
  by (simp add: lame_configure_def)

lemma VBR_calls_on_configure:
  "VBR_calls_on g (lame_configure m avctx g) =
     (if (flags avctx AND CODEC_FLAG_QSCALE m) \<noteq> 0 then [vbr_default] else [])"
  by (simp add: lame_configure_def)

lemma brate_calls_on_append:
  "brate_calls_on h (xs @ ys) = brate_calls_on h xs @ brate_calls_on h ys"
  by (induction h xs rule: brate_calls_on.induct) simp_all

lemma VBR_calls_on_append:
  "VBR_calls_on h (xs @ ys) = VBR_calls_on h xs @ VBR_calls_on h ys"
  by (induction h xs rule: VBR_calls_on.induct) simp_all

lemma brate_calls_append: "brate_calls (xs @ ys) = brate_calls xs @ brate_calls ys"
  by (induction xs rule: brate_calls.induct) simp_all

lemma VBR_calls_append: "VBR_calls (xs @ ys) = VBR_calls xs @ VBR_calls ys"
  by (induction xs rule: VBR_calls.induct) simp_all

subsection \<open>The concrete session\<close>

lemma length_zeros: "length (zeros n) = n"
  by (simp add: zeros_def)

lemma drop_zeros: "drop k (zeros n) = zeros (n - k)"
  by (simp add: zeros_def)

lemma demo_BUFFER_SIZE: "BUFFER_SIZE demo_macros = 9792"
  by (simp add: BUFFER_SIZE_def demo_macros_def)

lemma demo_priv_data: "priv_data demo_ctx = demo_priv"
  by (simp add: demo_ctx_def)

lemma demo_stereo_reply:
  "demo_lame (encode_call demo_macros demo_ctx (Some d)) = (8, [0xFF, 0xFB, 0x90, 0x64, 1, 2, 3, 4])"
  by (simp add: encode_call_def demo_ctx_def demo_lame_def)

lemma demo_header: "AV_RB32 (0xFF # 0xFB # 0x90 # 0x64 # xs) = 0xFFFB9064"
  by (simp add: AV_RB32_def)

lemma demo_parser_accepts: "demo_parser 0xFFFB9064 = (0, \<lparr>hdr_frame_size = 6\<rparr>)"
  by (simp add: demo_parser_def drop_bit_eq_div)

lemma demo_mono_reply:
  "demo_lame (encode_call demo_macros demo_mono_ctx (Some d)) =
   (4, [0xFF, 0xFB, 0x90, 0x64])"
  by (simp add: encode_call_def demo_mono_ctx_def demo_ctx_def demo_lame_def)

lemma demo_flush_reply: "demo_lame (encode_call demo_macros demo_ctx None) = (0, [])"
  by (simp add: encode_call_def demo_ctx_def demo_lame_def)

lemma demo_invariant: "holding_invariant demo_macros demo_priv"
  by (simp add: holding_invariant_def demo_BUFFER_SIZE demo_priv_def)

lemma demo_length: "int (length (buffer demo_priv)) = BUFFER_SIZE demo_macros"
  by (simp add: demo_BUFFER_SIZE demo_priv_def length_zeros)

lemma demo_after_stereo:
  "after_append demo_priv (8, [0xFF, 0xFB, 0x90, 0x64, 1, 2, 3, 4]) =
   \<lparr>gfp = Some 7, buffer = [0xFF, 0xFB, 0x90, 0x64, 1, 2, 3, 4] @ zeros 9784,
    buffer_index = 8, reservoir = 1\<rparr>"
  by (simp add: after_append_def lame_store_def demo_priv_def drop_zeros)

lemma demo_after_mono:
  "after_append demo_priv (4, [0xFF, 0xFB, 0x90, 0x64]) =
   \<lparr>gfp = Some 7, buffer = [0xFF, 0xFB, 0x90, 0x64] @ zeros 9788,
    buffer_index = 4, reservoir = 1\<rparr>"
  by (simp add: after_append_def lame_store_def demo_priv_def drop_zeros)

lemma demo_stereo_state:
  "after_append (priv_data demo_ctx) (demo_lame (encode_call demo_macros demo_ctx (Some d))) =
   \<lparr>gfp = Some 7, buffer = [0xFF, 0xFB, 0x90, 0x64, 1, 2, 3, 4] @ zeros 9784,
    buffer_index = 8, reservoir = 1\<rparr>"
  by (simp only: demo_priv_data demo_stereo_reply demo_after_stereo)

lemma demo_mono_state:
  "after_append (priv_data demo_mono_ctx)
     (demo_lame (encode_call demo_macros demo_mono_ctx (Some d))) =
   \<lparr>gfp = Some 7, buffer = [0xFF, 0xFB, 0x90, 0x64] @ zeros 9788,
    buffer_index = 4, reservoir = 1\<rparr>"
proof -
  have "priv_data demo_mono_ctx = demo_priv"
    by (simp add: demo_mono_ctx_def demo_ctx_def)
  then show ?thesis
    by (simp only: demo_mono_reply demo_after_mono)
qed

lemma demo_stereo_header:
  "demo_parser (AV_RB32 (buffer (after_append (priv_data demo_ctx)
     (demo_lame (encode_call demo_macros demo_ctx (Some d)))))) = (0, \<lparr>hdr_frame_size = 6\<rparr>)"
  by (simp add: demo_stereo_state demo_header demo_parser_accepts)

lemma demo_mono_header:
  "demo_parser (AV_RB32 (buffer (after_append (priv_data demo_mono_ctx)
     (demo_lame (encode_call demo_macros demo_mono_ctx (Some d)))))) =
   (0, \<lparr>hdr_frame_size = 6\<rparr>)"
  by (simp add: demo_mono_state demo_header demo_parser_accepts)

lemma demo_stereo_result:
  "er_ret (MP3lame_encode_frame demo_macros demo_lame demo_parser demo_ctx bs (Some d)) = 6
   \<and> er_frame (MP3lame_encode_frame demo_macros demo_lame demo_parser demo_ctx bs (Some d)) =
       Some [0xFF, 0xFB, 0x90, 0x64, 1, 2]"
proof -
  let ?s = "after_append (priv_data demo_ctx) (demo_lame (encode_call demo_macros demo_ctx (Some d)))"
  have "MP3lame_encode_frame demo_macros demo_lame demo_parser demo_ctx bs (Some d) =
         \<lparr>er_ret = 6, er_frame = Some (take (nat 6) (buffer ?s)), er_log = [],
          er_ctx = demo_ctx\<lparr>priv_data := ?s
                     \<lparr>buffer_index := buffer_index ?s - 6,
                      buffer := memmove_front (buffer ?s) (nat 6)
                                  (nat (buffer_index ?s - 6))\<rparr>\<rparr>\<rparr>"
  proof (rule encode_frame_extract)
    show "0 \<le> fst (demo_lame (encode_call demo_macros demo_ctx (Some d)))"
      by (simp add: demo_stereo_reply)
    show "?s = ?s" ..
    show "4 \<le> buffer_index ?s" by (simp add: demo_stereo_state)
    show "fst (demo_parser (AV_RB32 (buffer ?s))) = 0" by (simp add: demo_stereo_header)
    show "6 = int (hdr_frame_size (snd (demo_parser (AV_RB32 (buffer ?s)))))"
      by (simp add: demo_stereo_header)
    show "6 \<le> buffer_index ?s" by (simp add: demo_stereo_state)
  qed
  then show ?thesis by (simp add: demo_stereo_state)
qed

lemma demo_stereo_frame:
  "er_frame (MP3lame_encode_frame demo_macros demo_lame demo_parser demo_ctx bs (Some d)) =
   Some [0xFF, 0xFB, 0x90, 0x64, 1, 2]"
  by (rule demo_stereo_result [THEN conjunct2])

lemma demo_call_contract:
  "lame_call_contract (encode_call demo_macros demo_ctx (Some d))
     (demo_lame (encode_call demo_macros demo_ctx (Some d)))"
  by (simp add: lame_call_contract_def demo_stereo_reply call_size_encode_call
      demo_BUFFER_SIZE demo_priv_data demo_priv_def)

lemma demo_contract:
  "lame_contract demo_macros (priv_data demo_ctx)
     (demo_lame (encode_call demo_macros demo_ctx (Some d)))"
  by (simp add: lame_contract_def demo_stereo_reply demo_BUFFER_SIZE demo_priv_data demo_priv_def)


lemma demo_qscale_brate: "c_div (bit_rate demo_qscale_ctx) 1000 = 128"
  by (simp add: c_div_def demo_qscale_ctx_def demo_ctx_def)

lemma failing_lame_reply: "failing_lame code bytes c = (code, bytes)"
  by (simp add: failing_lame_def)

lemma demo_partial_priv:
  "priv_data demo_partial_ctx =
   \<lparr>gfp = Some 7, buffer = [0xFF, 0xFB] @ zeros 9790, buffer_index = 2, reservoir = 1\<rparr>"
  by (simp add: demo_partial_ctx_def demo_ctx_def)

subsection \<open>The claims\<close>

text \<open>
  Claim C1. A frame is handed out only when the frame length declared by the header at
  the front of the holding buffer is at most the number of bytes buffered at that
  moment (\<open>buffer_index\<close> after the library call); the length returned is then that
  declared length and the frame is that many bytes from the front of the buffer. When
  the header is accepted and fewer bytes are buffered than it declares, the call returns
  0 and hands out nothing. A positive return value is always a frame handed out, so it
  never exceeds the bytes buffered.
\<close>

theorem encode_frame_no_over_read:
  fixes m lame dec avctx buf_size data
  defines "r \<equiv> MP3lame_encode_frame m lame dec avctx buf_size data"
    and "reply \<equiv> lame (encode_call m avctx data)"
  defines "s \<equiv> after_append (priv_data avctx) reply"
  defines "h \<equiv> dec (AV_RB32 (buffer s))"
  shows "(\<forall>f. er_frame r = Some f \<longrightarrow>
            fst h = 0 \<and> er_ret r = int (hdr_frame_size (snd h)) \<and>
            er_ret r \<le> buffer_index s \<and> f = take (nat (er_ret r)) (buffer s))
       \<and> (0 \<le> fst reply \<and> 4 \<le> buffer_index s \<and> fst h = 0 \<and>
          buffer_index s < int (hdr_frame_size (snd h)) \<longrightarrow>
            er_ret r = 0 \<and> er_frame r = None)
       \<and> (0 < er_ret r \<longrightarrow> er_frame r \<noteq> None \<and> er_ret r \<le> buffer_index s)"
  unfolding r_def s_def h_def reply_def
  by (simp add: MP3lame_encode_frame_def after_append_def Let_def case_prod_beta)

theorem encode_frame_no_over_read_witness:
  "er_frame (MP3lame_encode_frame demo_macros demo_lame demo_parser demo_ctx 4096 (Some []))
     = Some [0xFF, 0xFB, 0x90, 0x64, 1, 2]
   \<and> er_ret (MP3lame_encode_frame demo_macros demo_lame demo_parser demo_ctx 4096 (Some [])) = 6
   \<and> buffer_index (after_append (priv_data demo_ctx)
        (demo_lame (encode_call demo_macros demo_ctx (Some [])))) = 8
   \<and> buffer_index (after_append (priv_data demo_mono_ctx)
        (demo_lame (encode_call demo_macros demo_mono_ctx (Some [])))) = 4
   \<and> er_ret (MP3lame_encode_frame demo_macros demo_lame demo_parser demo_mono_ctx 4096 (Some [])) = 0
   \<and> er_frame (MP3lame_encode_frame demo_macros demo_lame demo_parser demo_mono_ctx 4096 (Some []))
       = None"
proof -
  let ?E = "MP3lame_encode_frame demo_macros demo_lame demo_parser demo_ctx 4096 (Some [])"
  let ?S = "after_append (priv_data demo_ctx)
              (demo_lame (encode_call demo_macros demo_ctx (Some [])))"
  let ?M = "MP3lame_encode_frame demo_macros demo_lame demo_parser demo_mono_ctx 4096 (Some [])"
  let ?T = "after_append (priv_data demo_mono_ctx)
              (demo_lame (encode_call demo_macros demo_mono_ctx (Some [])))"
  note stereo = encode_frame_no_over_read
          [where m = demo_macros and lame = demo_lame and dec = demo_parser
             and avctx = demo_ctx and buf_size = 4096 and data = "Some []"]
  note mono = encode_frame_no_over_read
          [where m = demo_macros and lame = demo_lame and dec = demo_parser
             and avctx = demo_mono_ctx and buf_size = 4096 and data = "Some []"]
  have f: "er_frame ?E = Some [0xFF, 0xFB, 0x90, 0x64, 1, 2]"
    by (rule demo_stereo_frame)
  have hs: "int (hdr_frame_size (snd (demo_parser (AV_RB32 (buffer ?S))))) = 6"
    by (simp add: demo_stereo_header)
  have si: "buffer_index ?S = 8"
    by (simp add: demo_stereo_state)
  from stereo f have "er_ret ?E = int (hdr_frame_size (snd (demo_parser (AV_RB32 (buffer ?S)))))"
    by blast
  then have r: "er_ret ?E = 6"
    by (simp only: hs)
  have m1: "0 \<le> fst (demo_lame (encode_call demo_macros demo_mono_ctx (Some [])))"
    by (simp add: demo_mono_reply)
  have ti: "buffer_index ?T = 4"
    by (simp add: demo_mono_state)
  have m3: "fst (demo_parser (AV_RB32 (buffer ?T))) = 0"
    by (simp add: demo_mono_header)
  have ht: "int (hdr_frame_size (snd (demo_parser (AV_RB32 (buffer ?T))))) = 6"
    by (simp add: demo_mono_header)
  have m2: "4 \<le> buffer_index ?T"
    by (simp add: ti)
  have m4: "buffer_index ?T < int (hdr_frame_size (snd (demo_parser (AV_RB32 (buffer ?T)))))"
    by (simp add: ti ht)
  from mono m1 m2 m3 m4 have w: "er_ret ?M = 0 \<and> er_frame ?M = None"
    by blast
  from f r si ti w show ?thesis by blast
qed

text \<open>
  Claim C2. When a call extracts a frame of length L (from a context that satisfies the
  invariant, with a library that keeps its contract), the frame is the first L bytes
  that were buffered, the bytes buffered afterwards are the former ones without their
  first L bytes, \<open>buffer_index\<close> has decreased by exactly L, and the array has kept its
  size.
\<close>

theorem encode_frame_extract_shifts:
  fixes m lame dec avctx buf_size data
  defines "r \<equiv> MP3lame_encode_frame m lame dec avctx buf_size data"
    and "s \<equiv> after_append (priv_data avctx) (lame (encode_call m avctx data))"
  assumes inv: "holding_invariant m (priv_data avctx)"
    and len: "int (length (buffer (priv_data avctx))) = BUFFER_SIZE m"
    and con: "lame_contract m (priv_data avctx) (lame (encode_call m avctx data))"
    and ex: "er_frame r = Some f"
  shows "int (length f) = er_ret r
       \<and> f = take (nat (er_ret r)) (holding_contents s)
       \<and> holding_contents (priv_data (er_ctx r)) = drop (nat (er_ret r)) (holding_contents s)
       \<and> buffer_index (priv_data (er_ctx r)) = buffer_index s - er_ret r
       \<and> length (buffer (priv_data (er_ctx r))) = length (buffer s)"
proof -
  let ?reply = "lame (encode_call m avctx data)"
  let ?h = "dec (AV_RB32 (buffer s))"
  let ?len = "int (hdr_frame_size (snd ?h))"
  from ex have ok: "0 \<le> fst ?reply" and four: "4 \<le> buffer_index s"
    and acc: "fst ?h = 0" and le: "?len \<le> buffer_index s"
    unfolding r_def s_def
    by (simp_all add: MP3lame_encode_frame_def after_append_def Let_def case_prod_beta
        split: if_splits)
  have r: "r = \<lparr>er_ret = ?len, er_frame = Some (take (nat ?len) (buffer s)), er_log = [],
          er_ctx = avctx\<lparr>priv_data := s
                     \<lparr>buffer_index := buffer_index s - ?len,
                      buffer := memmove_front (buffer s) (nat ?len)
                                  (nat (buffer_index s - ?len))\<rparr>\<rparr>\<rparr>"
    unfolding r_def using ok four acc le
    by (intro encode_frame_extract) (simp_all add: s_def)
  have fit: "buffer_index s \<le> int (length (buffer s))"
    unfolding s_def by (rule after_append_contents(3) [OF inv len con ok])
  let ?n = "hdr_frame_size (snd ?h)"
  let ?k = "nat (buffer_index s)"
  from le have n_le: "?n \<le> ?k" by linarith
  from fit have k_le: "?k \<le> length (buffer s)" by linarith
  from ex r have f: "f = take ?n (buffer s)" by simp
  have ret: "er_ret r = int ?n" by (subst r) simp
  have idx: "nat (buffer_index s - int ?n) = ?k - ?n"
    using le by linarith
  have a: "int (length f) = er_ret r"
    using f ret n_le k_le by simp
  have b: "f = take (nat (er_ret r)) (holding_contents s)"
    using f ret n_le by (simp add: holding_contents_def min_def)
  have c: "holding_contents (priv_data (er_ctx r)) = drop (nat (er_ret r)) (holding_contents s)"
    using n_le k_le
    by (subst r, subst ret) (simp add: holding_contents_def memmove_front_def drop_take idx)
  have d: "buffer_index (priv_data (er_ctx r)) = buffer_index s - er_ret r"
    by (subst r, subst ret) simp
  have e: "length (buffer (priv_data (er_ctx r))) = length (buffer s)"
    using n_le k_le
    by (subst r) (simp add: memmove_front_def idx)
  from a b c d e show ?thesis by blast
qed

theorem encode_frame_extract_shifts_witness:
  "holding_invariant demo_macros (priv_data demo_ctx)
   \<and> int (length (buffer (priv_data demo_ctx))) = BUFFER_SIZE demo_macros
   \<and> lame_contract demo_macros (priv_data demo_ctx)
       (demo_lame (encode_call demo_macros demo_ctx (Some [])))
   \<and> er_frame (MP3lame_encode_frame demo_macros demo_lame demo_parser demo_ctx 4096 (Some []))
       = Some [0xFF, 0xFB, 0x90, 0x64, 1, 2]
   \<and> er_ret (MP3lame_encode_frame demo_macros demo_lame demo_parser demo_ctx 4096 (Some [])) = 6
   \<and> holding_contents (priv_data (er_ctx
        (MP3lame_encode_frame demo_macros demo_lame demo_parser demo_ctx 4096 (Some [])))) = [3, 4]
   \<and> buffer_index (priv_data (er_ctx
        (MP3lame_encode_frame demo_macros demo_lame demo_parser demo_ctx 4096 (Some [])))) = 2"
proof -
  let ?E = "MP3lame_encode_frame demo_macros demo_lame demo_parser demo_ctx 4096 (Some [])"
  let ?S = "after_append (priv_data demo_ctx)
              (demo_lame (encode_call demo_macros demo_ctx (Some [])))"
  have h1: "holding_invariant demo_macros (priv_data demo_ctx)"
    by (simp add: demo_priv_data demo_invariant)
  have h2: "int (length (buffer (priv_data demo_ctx))) = BUFFER_SIZE demo_macros"
    by (simp add: demo_priv_data demo_length)
  note h3 = demo_contract [of "[]"]
  note h4 = demo_stereo_frame [of 4096 "[]"]
  have c: "holding_contents ?S = [0xFF, 0xFB, 0x90, 0x64, 1, 2, 3, 4]"
    by (simp add: demo_stereo_state holding_contents_def)
  have i: "buffer_index ?S = 8"
    by (simp add: demo_stereo_state)
  note T = encode_frame_extract_shifts [OF h1 h2 h3 h4]
  from T have "int (length [0xFF, 0xFB, 0x90, 0x64, 1, 2 :: u8]) = er_ret ?E"
    by blast
  then have r: "er_ret ?E = 6"
    by simp
  from T have "holding_contents (priv_data (er_ctx ?E)) = drop (nat (er_ret ?E)) (holding_contents ?S)"
    by blast
  then have k: "holding_contents (priv_data (er_ctx ?E)) = [3, 4]"
    by (simp add: r c)
  from T have "buffer_index (priv_data (er_ctx ?E)) = buffer_index ?S - er_ret ?E"
    by blast
  then have j: "buffer_index (priv_data (er_ctx ?E)) = 2"
    by (simp add: r i)
  from h1 h2 h3 h4 r k j show ?thesis by blast
qed

text \<open>
  Claim C3. The invariant \<open>0 \<le> buffer_index \<le> BUFFER_SIZE\<close> holds after the
  initialisation of a context whose \<open>buffer_index\<close> is 0 (the private context is
  handed over zero-filled, and the initialisation does not assign the field), and every
  encode call, data or flush, preserves it, provided the library call stores no more
  than the size argument it is handed in that call and returns the number of bytes
  stored.
\<close>

theorem holding_invariant_kept:
  "(buffer_index (priv_data avctx) = 0 \<longrightarrow>
      holding_invariant m (priv_data (ir_ctx (MP3lame_encode_init m ext avctx))))
   \<and> (holding_invariant m (priv_data avctx) \<and>
      lame_call_contract (encode_call m avctx data) (lame (encode_call m avctx data)) \<longrightarrow>
      holding_invariant m
        (priv_data (er_ctx (MP3lame_encode_frame m lame dec avctx buf_size data))))"
proof (intro conjI impI)
  assume "buffer_index (priv_data avctx) = 0"
  then show "holding_invariant m (priv_data (ir_ctx (MP3lame_encode_init m ext avctx)))"
    by (simp add: MP3lame_encode_init_def init_error_def MP3lame_encode_close_def
        holding_invariant_def BUFFER_SIZE_def Let_def)
next
  assume a: "holding_invariant m (priv_data avctx) \<and>
      lame_call_contract (encode_call m avctx data) (lame (encode_call m avctx data))"
  then have fits: "int (length (snd (lame (encode_call m avctx data))))
                     \<le> BUFFER_SIZE m - buffer_index (priv_data avctx)"
    and counts: "0 \<le> fst (lame (encode_call m avctx data)) \<longrightarrow>
                   fst (lame (encode_call m avctx data))
                   = int (length (snd (lame (encode_call m avctx data))))"
    by (simp_all add: lame_call_contract_def call_size_encode_call)
  from a have inv: "0 \<le> buffer_index (priv_data avctx)"
    "buffer_index (priv_data avctx) \<le> BUFFER_SIZE m"
    by (simp_all add: holding_invariant_def)
  from inv fits counts show "holding_invariant m
        (priv_data (er_ctx (MP3lame_encode_frame m lame dec avctx buf_size data)))"
    by (auto simp add: MP3lame_encode_frame_def holding_invariant_def Let_def case_prod_beta)
qed

theorem holding_invariant_kept_witness:
  "buffer_index (priv_data demo_ctx) = 0
   \<and> holding_invariant demo_macros (priv_data demo_ctx)
   \<and> lame_call_contract (encode_call demo_macros demo_ctx (Some []))
       (demo_lame (encode_call demo_macros demo_ctx (Some [])))
   \<and> holding_invariant demo_macros
       (priv_data (ir_ctx (MP3lame_encode_init demo_macros demo_extern demo_ctx)))
   \<and> holding_invariant demo_macros
       (priv_data (er_ctx
          (MP3lame_encode_frame demo_macros demo_lame demo_parser demo_ctx 4096 (Some []))))"
proof -
  have h0: "buffer_index (priv_data demo_ctx) = 0"
    by (simp add: demo_priv_data demo_priv_def)
  have h1: "holding_invariant demo_macros (priv_data demo_ctx)"
    by (simp add: demo_priv_data demo_invariant)
  note h2 = demo_call_contract [of "[]"]
  note T = holding_invariant_kept
         [where avctx = demo_ctx and m = demo_macros and ext = demo_extern and lame = demo_lame
            and data = "Some []" and dec = demo_parser and buf_size = 4096]
  note a = T [THEN conjunct1, THEN mp, OF h0]
  note b = T [THEN conjunct2, THEN mp, OF conjI [OF h1 h2]]
  from h0 h1 h2 a b show ?thesis by (intro conjI)
qed

text \<open>
  Claim C4. When the library call succeeds and fewer than 4 bytes are buffered after
  it, the call returns 0: no error value, no frame and no error message.
\<close>

theorem encode_frame_under_four_bytes:
  assumes "0 \<le> fst (lame (encode_call m avctx data))"
    and "buffer_index (priv_data avctx) + fst (lame (encode_call m avctx data)) < 4"
  shows "er_ret (MP3lame_encode_frame m lame dec avctx buf_size data) = 0
       \<and> er_frame (MP3lame_encode_frame m lame dec avctx buf_size data) = None
       \<and> er_log (MP3lame_encode_frame m lame dec avctx buf_size data) = []"
  using assms by (simp add: encode_frame_short)

theorem encode_frame_under_four_bytes_witness:
  "0 \<le> fst (demo_lame (encode_call demo_macros demo_ctx None))
   \<and> buffer_index (priv_data demo_ctx) + fst (demo_lame (encode_call demo_macros demo_ctx None)) < 4
   \<and> er_ret (MP3lame_encode_frame demo_macros demo_lame demo_parser demo_ctx 4096 None) = 0
   \<and> er_frame (MP3lame_encode_frame demo_macros demo_lame demo_parser demo_ctx 4096 None) = None
   \<and> er_log (MP3lame_encode_frame demo_macros demo_lame demo_parser demo_ctx 4096 None) = []"
proof -
  have h1: "0 \<le> fst (demo_lame (encode_call demo_macros demo_ctx None))"
    by (simp add: demo_flush_reply)
  have h2: "buffer_index (priv_data demo_ctx)
              + fst (demo_lame (encode_call demo_macros demo_ctx None)) < 4"
    by (simp add: demo_flush_reply demo_priv_data demo_priv_def)
  note T = encode_frame_under_four_bytes
         [where lame = demo_lame and m = demo_macros and avctx = demo_ctx and data = None
            and dec = demo_parser and buf_size = 4096, OF h1 h2]
  from h1 h2 T show ?thesis by (intro conjI) simp_all
qed

text \<open>
  Claim C5. With more than two channels the initialisation returns
  \<open>AVERROR(EINVAL)\<close>, and it has made no external call at all: no handle was
  created, and the context is unchanged.
\<close>

theorem init_channels_above_two:
  assumes "2 < channels avctx"
  shows "ir_ret (MP3lame_encode_init m ext avctx) = AVERROR EINVAL
       \<and> ir_trace (MP3lame_encode_init m ext avctx) = []
       \<and> open_handles (ir_trace (MP3lame_encode_init m ext avctx)) [] = []
       \<and> ir_ctx (MP3lame_encode_init m ext avctx) = avctx"
  using assms by (simp add: MP3lame_encode_init_def)

theorem init_channels_above_two_witness:
  "2 < channels demo_surround_ctx
   \<and> ir_ret (MP3lame_encode_init demo_macros demo_extern demo_surround_ctx) = AVERROR EINVAL
   \<and> ir_trace (MP3lame_encode_init demo_macros demo_extern demo_surround_ctx) = []
   \<and> ir_ctx (MP3lame_encode_init demo_macros demo_extern demo_surround_ctx) = demo_surround_ctx"
proof -
  have h: "2 < channels demo_surround_ctx"
    by (simp add: demo_surround_ctx_def demo_ctx_def)
  note T = init_channels_above_two
         [where avctx = demo_surround_ctx and m = demo_macros and ext = demo_extern, OF h]
  from h T show ?thesis by (intro conjI) simp_all
qed



text \<open>
  Claim C7 as the spec states it (the insufficient-space result and any other negative
  result reach the caller as two distinct errors) fails. A library result of \<open>-1\<close>
  and one of \<open>-2\<close> give the caller the same return value \<open>-1\<close>, the same (absent)
  frame and the same context.
\<close>

theorem encode_frame_negative_result_counterexample:
  "er_ret (MP3lame_encode_frame demo_macros (failing_lame (- 1) []) demo_parser demo_ctx 4096
      (Some [])) = - 1
   \<and> er_ret (MP3lame_encode_frame demo_macros (failing_lame (- 2) []) demo_parser demo_ctx 4096
      (Some [])) = - 1
   \<and> er_frame (MP3lame_encode_frame demo_macros (failing_lame (- 1) []) demo_parser demo_ctx 4096
      (Some []))
     = er_frame (MP3lame_encode_frame demo_macros (failing_lame (- 2) []) demo_parser demo_ctx 4096
      (Some []))
   \<and> er_ctx (MP3lame_encode_frame demo_macros (failing_lame (- 1) []) demo_parser demo_ctx 4096
      (Some []))
     = er_ctx (MP3lame_encode_frame demo_macros (failing_lame (- 2) []) demo_parser demo_ctx 4096
      (Some []))"
  by (simp add: encode_frame_failed failing_lame_reply)

text \<open>
  Claim C7, as amended. When the library call returns a negative value, the caller
  receives the return value \<open>-1\<close> and no frame, whichever negative value it was. The
  value \<open>-1\<close> (output buffer too small) also logs an error message that carries
  \<open>buffer_index\<close> and the free bytes \<open>BUFFER_SIZE - buffer_index\<close>; any other
  negative value logs nothing.
\<close>

theorem encode_frame_negative_result:
  fixes m lame dec avctx buf_size data
  defines "r \<equiv> MP3lame_encode_frame m lame dec avctx buf_size data"
  assumes "fst (lame (encode_call m avctx data)) < 0"
  shows "er_ret r = - 1 \<and> er_frame r = None
       \<and> er_log r = (if fst (lame (encode_call m avctx data)) = - 1
                     then [Output_buffer_too_small (buffer_index (priv_data avctx))
                             (BUFFER_SIZE m - buffer_index (priv_data avctx))]
                     else [])"
  using assms(2) unfolding r_def by (simp add: encode_frame_failed)

theorem encode_frame_negative_result_witness:
  "fst (failing_lame (- 1) [] (encode_call demo_macros demo_ctx (Some []))) < 0
   \<and> er_ret (MP3lame_encode_frame demo_macros (failing_lame (- 1) []) demo_parser demo_ctx 4096
        (Some [])) = - 1
   \<and> er_log (MP3lame_encode_frame demo_macros (failing_lame (- 1) []) demo_parser demo_ctx 4096
        (Some [])) = [Output_buffer_too_small 0 9792]
   \<and> fst (failing_lame (- 2) [] (encode_call demo_macros demo_ctx (Some []))) < 0
   \<and> er_ret (MP3lame_encode_frame demo_macros (failing_lame (- 2) []) demo_parser demo_ctx 4096
        (Some [])) = - 1
   \<and> er_log (MP3lame_encode_frame demo_macros (failing_lame (- 2) []) demo_parser demo_ctx 4096
        (Some [])) = []"
proof -
  have h1: "fst (failing_lame (- 1) [] (encode_call demo_macros demo_ctx (Some []))) < 0"
    by (simp add: failing_lame_reply)
  have h2: "fst (failing_lame (- 2) [] (encode_call demo_macros demo_ctx (Some []))) < 0"
    by (simp add: failing_lame_reply)
  have i: "buffer_index (priv_data demo_ctx) = 0"
    by (simp add: demo_priv_data demo_priv_def)
  note T1 = encode_frame_negative_result
         [where lame = "failing_lame (- 1) []" and m = demo_macros and avctx = demo_ctx
            and data = "Some []" and dec = demo_parser and buf_size = 4096, OF h1]
  note T2 = encode_frame_negative_result
         [where lame = "failing_lame (- 2) []" and m = demo_macros and avctx = demo_ctx
            and data = "Some []" and dec = demo_parser and buf_size = 4096, OF h2]
  from T1 have l1: "er_log (MP3lame_encode_frame demo_macros (failing_lame (- 1) []) demo_parser
                      demo_ctx 4096 (Some [])) = [Output_buffer_too_small 0 9792]"
    by (simp add: failing_lame_reply i demo_BUFFER_SIZE)
  from T2 have l2: "er_log (MP3lame_encode_frame demo_macros (failing_lame (- 2) []) demo_parser
                      demo_ctx 4096 (Some [])) = []"
    by (simp add: failing_lame_reply)
  from h1 h2 l1 l2 T1 [THEN conjunct1] T2 [THEN conjunct1] show ?thesis
    by (intro conjI)
qed

text \<open>
  Claim C8. When the \<open>CODEC_FLAG_QSCALE\<close> bit is set in the flags (and the
  initialisation gets as far as configuring a handle), the handle \<open>h\<close> that
  \<open>lame_init\<close> returned is the one that is configured and then finalised by
  \<open>lame_init_params\<close>: the bit rates set on \<open>h\<close> before \<open>lame_init_params\<close> are
  first \<open>bit_rate / 1000\<close> and then the overriding 0, the VBR mode \<open>vbr_default\<close> is
  set on \<open>h\<close>, and no bit rate or VBR mode is set on anything else, whatever
  \<open>bit_rate\<close> is.
\<close>

theorem init_qscale_overrides_brate:
  fixes m ext avctx
  defines "tr \<equiv> ir_trace (MP3lame_encode_init m ext avctx)"
  assumes "(flags avctx AND CODEC_FLAG_QSCALE m) \<noteq> 0"
    and "channels avctx \<le> 2" and "ext_lame_init ext = Some h"
  shows "brate_calls (before_init_params tr) = [c_div (bit_rate avctx) 1000, 0]
       \<and> VBR_calls (before_init_params tr) = [vbr_default]
       \<and> brate_calls tr = [c_div (bit_rate avctx) 1000, 0]
       \<and> VBR_calls tr = [vbr_default]
       \<and> Lame_init_params (Some h) (ext_lame_init_params ext) \<in> set tr
       \<and> hd tr = Lame_init (Some h)
       \<and> brate_calls_on (Some h) (before_init_params tr) = [c_div (bit_rate avctx) 1000, 0]
       \<and> VBR_calls_on (Some h) (before_init_params tr) = [vbr_default]
       \<and> brate_calls_on (Some h) tr = [c_div (bit_rate avctx) 1000, 0]
       \<and> VBR_calls_on (Some h) tr = [vbr_default]"
  using assms(2-) unfolding tr_def
  by (simp add: MP3lame_encode_init_def init_error_def MP3lame_encode_close_def Let_def
      before_init_params_configure brate_calls_append VBR_calls_append
      brate_calls_configure VBR_calls_configure
      brate_calls_on_append VBR_calls_on_append
      brate_calls_on_configure VBR_calls_on_configure)

theorem init_qscale_overrides_brate_witness:
  "(flags demo_qscale_ctx AND CODEC_FLAG_QSCALE demo_macros) \<noteq> 0
   \<and> channels demo_qscale_ctx \<le> 2
   \<and> ext_lame_init demo_extern = Some 7
   \<and> brate_calls (ir_trace (MP3lame_encode_init demo_macros demo_extern demo_qscale_ctx)) = [128, 0]
   \<and> VBR_calls (ir_trace (MP3lame_encode_init demo_macros demo_extern demo_qscale_ctx))
       = [vbr_default]
   \<and> brate_calls_on (Some 7)
        (before_init_params (ir_trace (MP3lame_encode_init demo_macros demo_extern demo_qscale_ctx)))
       = [128, 0]
   \<and> VBR_calls_on (Some 7)
        (before_init_params (ir_trace (MP3lame_encode_init demo_macros demo_extern demo_qscale_ctx)))
       = [vbr_default]"
proof -
  have h1: "(flags demo_qscale_ctx AND CODEC_FLAG_QSCALE demo_macros) \<noteq> 0"
    by (simp add: demo_qscale_ctx_def demo_ctx_def demo_macros_def)
  have h2: "channels demo_qscale_ctx \<le> 2"
    by (simp add: demo_qscale_ctx_def demo_ctx_def)
  have h3: "ext_lame_init demo_extern = Some 7"
    by (simp add: demo_extern_def)
  note T = init_qscale_overrides_brate
         [where avctx = demo_qscale_ctx and m = demo_macros and ext = demo_extern, OF h1 h2 h3]
  note T2 = T [THEN conjunct2, THEN conjunct2]
  note b = T2 [THEN conjunct1]
  note v = T2 [THEN conjunct2, THEN conjunct1]
  note T6 = T2 [THEN conjunct2, THEN conjunct2, THEN conjunct2, THEN conjunct2]
  note bh = T6 [THEN conjunct1]
  note vh = T6 [THEN conjunct2, THEN conjunct1]
  from b have b': "brate_calls (ir_trace (MP3lame_encode_init demo_macros demo_extern demo_qscale_ctx))
                   = [128, 0]"
    by (simp only: demo_qscale_brate)
  from bh have bh': "brate_calls_on (Some 7)
        (before_init_params (ir_trace (MP3lame_encode_init demo_macros demo_extern demo_qscale_ctx)))
       = [128, 0]"
    by (simp only: demo_qscale_brate)
  from h1 h2 h3 b' v bh' vh show ?thesis by (intro conjI)
qed

text \<open>
  Claim C9. When the library call returns a negative value, the call returns \<open>-1\<close>
  with \<open>buffer_index\<close> and the buffered bytes as they were. The function itself
  writes nothing: the context differs from the one before the call at most by what the
  library stored in the free part of the array, and not at all when it stored nothing.
\<close>

theorem encode_frame_failed_keeps_contents:
  fixes m lame dec avctx buf_size data
  defines "r \<equiv> MP3lame_encode_frame m lame dec avctx buf_size data"
    and "s0 \<equiv> priv_data avctx"
  assumes neg: "fst (lame (encode_call m avctx data)) < 0"
    and inv: "holding_invariant m s0"
    and len: "int (length (buffer s0)) = BUFFER_SIZE m"
  shows "er_ret r = - 1 \<and> er_frame r = None
       \<and> buffer_index (priv_data (er_ctx r)) = buffer_index s0
       \<and> holding_contents (priv_data (er_ctx r)) = holding_contents s0
       \<and> er_ctx r = avctx\<lparr>priv_data := s0\<lparr>buffer :=
            lame_store (buffer s0) (buffer_index s0) (snd (lame (encode_call m avctx data)))\<rparr>\<rparr>
       \<and> (snd (lame (encode_call m avctx data)) = [] \<longrightarrow> er_ctx r = avctx)"
proof -
  from inv len have "nat (buffer_index s0) \<le> length (buffer s0)"
    unfolding holding_invariant_def by linarith
  with neg show ?thesis
    unfolding r_def s0_def
    by (simp add: encode_frame_failed holding_contents_def lame_store_take lame_store_Nil)
qed

theorem encode_frame_failed_keeps_contents_witness:
  "fst (failing_lame (- 1) [0x90, 0x64] (encode_call demo_macros demo_partial_ctx (Some []))) < 0
   \<and> holding_invariant demo_macros (priv_data demo_partial_ctx)
   \<and> int (length (buffer (priv_data demo_partial_ctx))) = BUFFER_SIZE demo_macros
   \<and> er_ret (MP3lame_encode_frame demo_macros (failing_lame (- 1) [0x90, 0x64]) demo_parser
        demo_partial_ctx 4096 (Some [])) = - 1
   \<and> buffer_index (priv_data (er_ctx (MP3lame_encode_frame demo_macros
        (failing_lame (- 1) [0x90, 0x64]) demo_parser demo_partial_ctx 4096 (Some [])))) = 2
   \<and> holding_contents (priv_data (er_ctx (MP3lame_encode_frame demo_macros
        (failing_lame (- 1) [0x90, 0x64]) demo_parser demo_partial_ctx 4096 (Some []))))
       = [0xFF, 0xFB]"
proof -
  let ?G = "MP3lame_encode_frame demo_macros (failing_lame (- 1) [0x90, 0x64]) demo_parser
              demo_partial_ctx 4096 (Some [])"
  have h1: "fst (failing_lame (- 1) [0x90, 0x64]
              (encode_call demo_macros demo_partial_ctx (Some []))) < 0"
    by (simp add: failing_lame_reply)
  have h2: "holding_invariant demo_macros (priv_data demo_partial_ctx)"
    by (simp add: holding_invariant_def demo_partial_priv demo_BUFFER_SIZE)
  have h3: "int (length (buffer (priv_data demo_partial_ctx))) = BUFFER_SIZE demo_macros"
    by (simp add: demo_partial_priv demo_BUFFER_SIZE length_zeros)
  have i: "buffer_index (priv_data demo_partial_ctx) = 2"
    by (simp add: demo_partial_priv)
  have c: "holding_contents (priv_data demo_partial_ctx) = [0xFF, 0xFB]"
    by (simp add: demo_partial_priv holding_contents_def)
  note T = encode_frame_failed_keeps_contents
         [where lame = "failing_lame (- 1) [0x90, 0x64]" and m = demo_macros
            and avctx = demo_partial_ctx and data = "Some []" and dec = demo_parser
            and buf_size = 4096, OF h1 h2 h3]
  note r = T [THEN conjunct1]
  note j = T [THEN conjunct2, THEN conjunct2, THEN conjunct1]
  note k = T [THEN conjunct2, THEN conjunct2, THEN conjunct2, THEN conjunct1]
  from j have j': "buffer_index (priv_data (er_ctx ?G)) = 2"
    by (simp only: i)
  from k have k': "holding_contents (priv_data (er_ctx ?G)) = [0xFF, 0xFB]"
    by (simp only: c)
  from h1 h2 h3 r j' k' show ?thesis by (intro conjI)
qed

text \<open>
  Claim C10. The declared size \<open>buf_size\<close> of the caller's frame is never read:
  the result of a call (return value, frame bytes, messages and context) is the same
  for any two values of it. An extracted frame is therefore copied whole whatever the
  declared size: in the example a frame of six bytes is copied with \<open>buf_size = 0\<close>.
\<close>

theorem encode_frame_ignores_buf_size:
  "MP3lame_encode_frame m lame dec avctx b1 data = MP3lame_encode_frame m lame dec avctx b2 data"
  by (simp add: MP3lame_encode_frame_def)

theorem encode_frame_ignores_buf_size_witness:
  "er_ret (MP3lame_encode_frame demo_macros demo_lame demo_parser demo_ctx 0 (Some [])) = 6
   \<and> er_frame (MP3lame_encode_frame demo_macros demo_lame demo_parser demo_ctx 0 (Some []))
       = Some [0xFF, 0xFB, 0x90, 0x64, 1, 2]"
proof -
  note T = encode_frame_ignores_buf_size
         [where m = demo_macros and lame = demo_lame and dec = demo_parser and avctx = demo_ctx
            and data = "Some []" and ?b1.0 = 0 and ?b2.0 = 4096]
  note R = demo_stereo_result [of 4096 "[]"]
  show ?thesis
    unfolding T by (rule R)
qed

end
